theory Spec2Isabelle
  imports Main
begin

section \<open>The workflow controller of static/js/app.js\<close>

text \<open>
  The script registers four event handlers on one page (form submit, download click,
  field input, keydown) and keeps two variables, \<open>isProcessing\<close> and
  \<open>latestFilename\<close>. The embedding follows the script function by function: the
  page is a record that every function takes and returns, an exception is a value,
  and the asynchronous submit handler is split at its \<open>await\<close> into the part that
  runs when the event is dispatched and the part that runs when the request settles.
\<close>

subsection \<open>Strings\<close>

text \<open>
  A JavaScript string is a sequence of UTF-16 code units; \<open>length\<close> counts code units.
  \<open>js\<close> turns an ASCII literal into that representation; code units beyond ASCII are
  written as numbers.
\<close>

type_synonym jsstring = "nat list"

definition js :: "string \<Rightarrow> jsstring" where
  "js s = map of_char s"

text \<open>\<open>String.prototype.includes\<close> with a string argument: substring search.\<close>

fun includes_str :: "jsstring \<Rightarrow> jsstring \<Rightarrow> bool" where
  "includes_str [] pat = (pat = [])"
| "includes_str (x # xs) pat = (take (length pat) (x # xs) = pat \<or> includes_str xs pat)"

text \<open>
  \<open>String.prototype.trim\<close> removes the WhiteSpace and LineTerminator code units of
  ECMAScript from both ends.
\<close>

definition is_space :: "nat \<Rightarrow> bool" where
  "is_space c = (c \<in> {9, 10, 11, 12, 13, 32, 160, 5760, 8232, 8233, 8239, 8287, 12288, 65279}
                 \<or> (8192 \<le> c \<and> c \<le> 8202))"

definition trim :: "jsstring \<Rightarrow> jsstring" where
  "trim s = dropWhile is_space (rev (dropWhile is_space (rev s)))"

text \<open>
  \<open>.replace(/\n\n/g, '</p><p>')\<close> scans from the left and replaces each match that does
  not overlap the one before; \<open>.replace(/\n/g, '<br>')\<close> replaces every newline.
\<close>

fun replace_nn :: "jsstring \<Rightarrow> jsstring" where
  "replace_nn (a # b # xs) =
     (if a = 10 \<and> b = 10 then js ''</p><p>'' @ replace_nn xs else a # replace_nn (b # xs))"
| "replace_nn xs = xs"

definition replace_n :: "jsstring \<Rightarrow> jsstring" where
  "replace_n s = concat (map (\<lambda>c. if c = 10 then js ''<br>'' else [c]) s)"

text \<open>Decimal digits of a natural number, as number-to-string conversion prints them.\<close>

fun decimal :: "nat \<Rightarrow> jsstring" where
  "decimal n = (if n < 10 then [48 + n] else decimal (n div 10) @ [48 + n mod 10])"

declare decimal.simps [simp del]

fun join :: "jsstring \<Rightarrow> jsstring list \<Rightarrow> jsstring" where
  "join sep [] = []"
| "join sep [x] = x"
| "join sep (x # y # ys) = x @ sep @ join sep (y # ys)"

subsection \<open>Values\<close>

text \<open>
  The values that \<open>response.json()\<close> can produce, and \<open>undefined\<close>, which reading a
  missing property gives. Numbers are the integers: the fraction and the exponent
  of a double, and what number-to-string conversion prints for them, are outside
  the model. An object is the list of its own properties.
\<close>

datatype jsval =
    Undefined
  | Null
  | Bool bool
  | Num int
  | Str jsstring
  | Arr "jsval list"
  | Obj "(jsstring \<times> jsval) list"

fun truthy :: "jsval \<Rightarrow> bool" where
  "truthy Undefined = False"
| "truthy Null = False"
| "truthy (Bool b) = b"
| "truthy (Num n) = (n \<noteq> 0)"
| "truthy (Str s) = (s \<noteq> [])"
| "truthy (Arr xs) = True"
| "truthy (Obj fs) = True"

fun nullish :: "jsval \<Rightarrow> bool" where
  "nullish Undefined = True"
| "nullish Null = True"
| "nullish v = False"

text \<open>
  \<open>getprop v k\<close> is \<open>v.k\<close> for the property names the script reads, none of which a
  prototype provides: an object gives its own property or \<open>undefined\<close>, a boolean,
  number, string or array gives \<open>undefined\<close>. Reading a property of \<open>null\<close> or
  \<open>undefined\<close> raises TypeError instead; the two reads that can meet such a value
  (lines 49 and 54) test \<open>nullish\<close> first, and every other read is of a value that
  an earlier read or a truthiness test has shown not to be one.
\<close>

fun getprop :: "jsval \<Rightarrow> jsstring \<Rightarrow> jsval" where
  "getprop (Obj fs) k = (case map_of fs k of None \<Rightarrow> Undefined | Some v \<Rightarrow> v)"
| "getprop v k = Undefined"

text \<open>\<open>a || b\<close>\<close>

definition or_else :: "jsval \<Rightarrow> jsval \<Rightarrow> jsval" where
  "or_else a b = (if truthy a then a else b)"

text \<open>
  String conversion, as a template literal, \<open>new Error(v)\<close> and \<open>textContent = v\<close>
  apply it. An array is its elements joined by a comma, with \<open>null\<close> and
  \<open>undefined\<close> elements printed as the empty string.
\<close>

definition num_string :: "int \<Rightarrow> jsstring" where
  "num_string n = (if n < 0 then 45 # decimal (nat (- n)) else decimal (nat n))"

fun to_string :: "jsval \<Rightarrow> jsstring" where
  "to_string Undefined = js ''undefined''"
| "to_string Null = js ''null''"
| "to_string (Bool b) = (if b then js ''true'' else js ''false'')"
| "to_string (Num n) = num_string n"
| "to_string (Str s) = s"
| "to_string (Arr xs) =
     join [44] (map (\<lambda>x. if nullish x then [] else to_string x) xs)"
| "to_string (Obj fs) = js ''[object Object]''"

text \<open>\<open>Array.prototype.join(sep)\<close> on the elements of an array.\<close>

definition array_join :: "jsstring \<Rightarrow> jsval list \<Rightarrow> jsstring" where
  "array_join sep xs = join sep (map (\<lambda>x. if nullish x then [] else to_string x) xs)"

subsection \<open>Exceptions\<close>

text \<open>
  An exception is an object with a \<open>name\<close> and a \<open>message\<close>, the two properties the
  \<open>catch\<close> block reads. The message of a TypeError that the engine itself raises
  depends on the engine, so it is a parameter; so is the comparison of a string's
  numeric value with a number, which only \<open>populateStatistics\<close> needs.
\<close>

record exn =
  err_name :: jsstring
  err_message :: jsstring

datatype fault =
    NullRead jsstring
  | NullWrite jsstring
  | NotFunction jsstring

record engine =
  type_error_message :: "fault \<Rightarrow> jsstring"
  string_ge :: "jsstring \<Rightarrow> int \<Rightarrow> bool"

definition type_error :: "engine \<Rightarrow> fault \<Rightarrow> exn" where
  "type_error eng f = \<lparr>err_name = js ''TypeError'', err_message = type_error_message eng f\<rparr>"

text \<open>\<open>new Error(v)\<close>\<close>

definition new_Error :: "jsval \<Rightarrow> exn" where
  "new_Error v = \<lparr>err_name = js ''Error'', err_message = to_string v\<rparr>"

text \<open>\<open>v >= k\<close> for a number literal \<open>k\<close>: \<open>v\<close> is converted to a number first.\<close>

fun ge_number :: "engine \<Rightarrow> jsval \<Rightarrow> int \<Rightarrow> bool" where
  "ge_number eng Undefined k = False"
| "ge_number eng Null k = (0 \<ge> k)"
| "ge_number eng (Bool b) k = ((if b then 1 else 0) \<ge> k)"
| "ge_number eng (Num n) k = (n \<ge> k)"
| "ge_number eng (Str s) k = string_ge eng s k"
| "ge_number eng (Arr xs) k = string_ge eng (to_string (Arr xs)) k"
| "ge_number eng (Obj fs) k = string_ge eng (to_string (Obj fs)) k"

subsection \<open>The page\<close>

text \<open>
  The script only writes to the page, except for the value of the text field. What
  it last wrote to an element is kept: \<open>Text\<close> for an assignment to \<open>textContent\<close>,
  which the browser shows literally, \<open>Html\<close> for an assignment to \<open>innerHTML\<close>,
  which the browser parses as markup.

  \<open>getElementById\<close> and \<open>querySelector\<close> give \<open>null\<close> for an element the page does not
  have, so those elements are optional. The model describes the controller after its
  set-up ran to the end, which needs \<open>searchForm\<close>, \<open>downloadBtn\<close> and \<open>companyName\<close>
  (lines 12, 87 and 101 call \<open>addEventListener\<close> on them).
\<close>

datatype content = Text jsstring | Html jsstring

record element =
  content :: content
  display :: jsstring
  classes :: "jsstring set"
  disabled :: bool

record textfield =
  field_value :: jsstring
  field_classes :: "jsstring set"
  focused :: bool

record page =
  companyInput :: textfield
  downloadBtn :: element
  searchBtn :: "element option"
  btnText :: "element option"
  btnIcon :: "element option"
  errorMessage :: "element option"
  resultsSection :: "element option"
  statusSection :: "element option"
  statusList :: "element option"
  companyName_result :: "element option"
  fileSize :: "element option"
  fileName :: "element option"
  summaryContent :: "element option"
  extractedInfo :: "element option"
  processingTime :: "element option"
  qualityScore :: "element option"
  wordCount :: "element option"
  extractionMethod :: "element option"
  clear_timers :: nat
  scrolls :: nat
  location_href :: "jsstring option"

text \<open>
  \<open>clear_timers\<close> counts the pending 10-second timers of \<open>showError\<close>, \<open>scrolls\<close> the
  calls of \<open>scrollIntoView\<close> on the results section, \<open>location_href\<close> is the last
  address assigned to \<open>window.location.href\<close>. \<open>console\<close> output is not modelled.
\<close>

subsection \<open>Messages\<close>

definition msg_busy :: jsstring where
  "msg_busy = js ''Ein Verarbeitungsvorgang l'' @ [228] @ js ''uft bereits. Bitte warten...''"

definition msg_starting :: jsstring where
  "msg_starting = js ''Suche nach Unternehmen wird gestartet...''"

definition msg_unknown_error :: jsstring where
  "msg_unknown_error = js ''Unbekannter Fehler aufgetreten''"

definition msg_done :: jsstring where
  "msg_done = js ''Verarbeitung erfolgreich abgeschlossen!''"

definition msg_timeout :: jsstring where
  "msg_timeout = js ''Die Verarbeitung dauerte zu lange und wurde abgebrochen. Bitte versuchen Sie es erneut.''"

definition msg_connection :: jsstring where
  "msg_connection = js ''Verbindungsfehler. Bitte '' @ [252] @ js ''berpr'' @ [252]
     @ js ''fen Sie Ihre Internetverbindung und versuchen Sie es erneut.''"

definition msg_unexpected :: jsstring where
  "msg_unexpected = js ''Ein unerwarteter Fehler ist aufgetreten''"

definition msg_failed :: jsstring where
  "msg_failed = js ''Verarbeitung fehlgeschlagen''"

definition msg_no_file :: jsstring where
  "msg_no_file = js ''Keine Datei zum Download verf'' @ [252] @ js ''gbar''"

definition msg_download_failed :: jsstring where
  "msg_download_failed = js ''Download fehlgeschlagen. Bitte versuchen Sie es erneut.''"

definition msg_missing :: jsstring where
  "msg_missing = js ''Bitte geben Sie einen Firmennamen ein.''"

definition msg_too_short :: jsstring where
  "msg_too_short = js ''Firmennamen m'' @ [252] @ js ''ssen mindestens 3 Zeichen lang sein.''"

definition msg_too_long :: jsstring where
  "msg_too_long = js ''Firmennamen d'' @ [252] @ js ''rfen maximal 200 Zeichen lang sein.''"

definition msg_forbidden :: jsstring where
  "msg_forbidden = js ''Firmennamen d'' @ [252] @ js ''rfen keine Sonderzeichen wie <, >, ''
     @ [34] @ js '', '' @ [39] @ js '', { oder } enthalten.''"

definition unbekannt :: jsstring where
  "unbekannt = js ''Unbekannt''"

subsection \<open>Error banner, status entry, submit control\<close>

definition showError :: "jsstring \<Rightarrow> page \<Rightarrow> page" where
  "showError message p =
     (case errorMessage p of
        None \<Rightarrow> p
      | Some el \<Rightarrow>
          p\<lparr>errorMessage := Some (el\<lparr>content := Text message,
                                     classes := insert (js ''show'') (classes el)\<rparr>),
            clear_timers := clear_timers p + 1\<rparr>)"

definition clearError :: "page \<Rightarrow> page" where
  "clearError p =
     (case errorMessage p of
        None \<Rightarrow> p
      | Some el \<Rightarrow>
          p\<lparr>errorMessage := Some (el\<lparr>content := Text [],
                                     classes := classes el - {js ''show''}\<rparr>)\<rparr>)"

definition hide :: "element option \<Rightarrow> element option" where
  "hide e = map_option (\<lambda>el. el\<lparr>display := js ''none''\<rparr>) e"

definition clearResults :: "page \<Rightarrow> page" where
  "clearResults p = p\<lparr>resultsSection := hide (resultsSection p),
                       statusSection := hide (statusSection p)\<rparr>"

text \<open>
  \<open>setButtonLoading\<close> reads \<open>btn.querySelector\<close> and writes \<open>btnText.textContent\<close>
  without a test: without the button nothing is written, without its text the
  button is already disabled or enabled when the exception is raised.
\<close>

definition setButtonLoading :: "engine \<Rightarrow> bool \<Rightarrow> page \<Rightarrow> exn option \<times> page" where
  "setButtonLoading eng isLoading p =
     (case searchBtn p of
        None \<Rightarrow> (Some (type_error eng (NullRead (js ''querySelector''))), p)
      | Some btn \<Rightarrow>
          let p1 = p\<lparr>searchBtn := Some (btn\<lparr>disabled := isLoading,
                        classes := (if isLoading then insert (js ''loading'') (classes btn)
                                    else classes btn - {js ''loading''})\<rparr>)\<rparr>
          in (case btnText p1 of
                None \<Rightarrow> (Some (type_error eng (NullWrite (js ''textContent''))), p1)
              | Some t \<Rightarrow>
                  (None,
                   p1\<lparr>btnText := Some (t\<lparr>content := Text
                           (if isLoading then js ''Verarbeitung l'' @ [228] @ js ''uft...''
                            else js ''Suchen & Verarbeiten'')\<rparr>),
                      btnIcon := map_option (\<lambda>i. i\<lparr>content := Html
                           (if isLoading then [9203] else [55357, 56589])\<rparr>) (btnIcon p1)\<rparr>)))"

definition status_item :: "jsstring \<Rightarrow> jsstring \<Rightarrow> jsstring \<Rightarrow> jsstring" where
  "status_item className icon message =
     js ''<li class='' @ [34] @ js ''status-item '' @ className @ [34] @ js ''>'' @ [10]
     @ replicate 16 32 @ js ''<span class='' @ [34] @ js ''status-icon'' @ [34] @ js ''>''
     @ icon @ js ''</span>'' @ [10]
     @ replicate 16 32 @ js ''<span class='' @ [34] @ js ''status-text'' @ [34] @ js ''>''
     @ message @ js ''</span>'' @ [10]
     @ replicate 12 32 @ js ''</li>''"

definition showStatusSection :: "jsstring \<Rightarrow> page \<Rightarrow> page" where
  "showStatusSection message p =
     (case (statusSection p, statusList p) of
        (Some sec, Some lst) \<Rightarrow>
          p\<lparr>statusList := Some (lst\<lparr>content := Html (status_item (js ''processing'') [9203] message)\<rparr>),
            statusSection := Some (sec\<lparr>display := js ''block''\<rparr>)\<rparr>
      | _ \<Rightarrow> p)"

definition updateStatusSection :: "jsstring \<Rightarrow> bool \<Rightarrow> page \<Rightarrow> page" where
  "updateStatusSection message success p =
     (case statusList p of
        None \<Rightarrow> p
      | Some lst \<Rightarrow>
          let icon = (if success then [9989] else [10060]);
              className = (if success then js ''completed'' else js ''failed'')
          in p\<lparr>statusList := Some (lst\<lparr>content := Html (status_item className icon message)\<rparr>)\<rparr>)"

subsection \<open>Validation at submit\<close>

definition suspicious :: "nat \<Rightarrow> bool" where
  "suspicious c = (c \<in> {60, 62, 34, 39, 123, 125})"

definition reject :: "jsstring \<Rightarrow> page \<Rightarrow> bool \<times> page" where
  "reject message p =
     (let p1 = showError message p
      in (False, p1\<lparr>companyInput := (companyInput p1)\<lparr>focused := True\<rparr>\<rparr>))"

definition validateInput :: "page \<Rightarrow> bool \<times> page" where
  "validateInput p =
     (let input = trim (field_value (companyInput p))
      in if input = [] then reject msg_missing p
         else if length input < 3 then reject msg_too_short p
         else if length input > 200 then reject msg_too_long p
         else if list_ex suspicious input then reject msg_forbidden p
         else (True, p))"

subsection \<open>Rendering a result\<close>

definition set_text :: "jsstring \<Rightarrow> element option \<Rightarrow> element option" where
  "set_text s e = map_option (\<lambda>el. el\<lparr>content := Text s\<rparr>) e"

definition populateCompanyInfo :: "jsval \<Rightarrow> page \<Rightarrow> page" where
  "populateCompanyInfo result p =
     p\<lparr>companyName_result :=
         set_text (to_string (or_else (getprop result (js ''company_name'')) (Str unbekannt)))
           (companyName_result p),
       fileSize :=
         set_text (to_string (or_else (getprop result (js ''file_size'')) (Str unbekannt)))
           (fileSize p),
       fileName :=
         set_text (to_string (or_else (getprop result (js ''filename'')) (Str unbekannt)))
           (fileName p),
       downloadBtn :=
         (if truthy (getprop result (js ''filename''))
          then (downloadBtn p)\<lparr>display := js ''inline-block''\<rparr> else downloadBtn p)\<rparr>"

text \<open>
  The markup that \<open>populateSummary\<close> assigns to \<open>innerHTML\<close>: the summary after the
  two \<open>replace\<close> calls, between \<open><p>\<close> and \<open></p>\<close>.
\<close>

definition summary_markup :: "jsstring \<Rightarrow> jsstring" where
  "summary_markup s = js ''<p>'' @ replace_n (replace_nn s) @ js ''</p>''"

definition info_item :: "jsstring \<Rightarrow> jsstring \<Rightarrow> jsstring" where
  "info_item label text = js ''<li><strong>'' @ label @ js '':</strong> '' @ text @ js ''</li>''"

definition field_item :: "jsstring \<Rightarrow> jsval \<Rightarrow> jsstring" where
  "field_item label v = (if truthy v then info_item label (to_string v) else [])"

text \<open>
  \<open>v.join(', ')\<close>: only an array has the method; on any other value that passed the
  truthiness test the call raises TypeError.
\<close>

definition list_item :: "engine \<Rightarrow> jsstring \<Rightarrow> jsval \<Rightarrow> exn + jsstring" where
  "list_item eng label v =
     (if truthy v
      then (case v of
              Arr xs \<Rightarrow> Inr (info_item label (array_join (js '', '') xs))
            | _ \<Rightarrow> Inl (type_error eng (NotFunction (js ''join''))))
      else Inr [])"

definition populateExtractedInfo :: "engine \<Rightarrow> jsval \<Rightarrow> page \<Rightarrow> exn option \<times> page" where
  "populateExtractedInfo eng info p =
     (case extractedInfo p of
        None \<Rightarrow> (None, p)
      | Some container \<Rightarrow>
          (let html = js ''<h3>Extrahierte Informationen</h3><ul>''
                 @ field_item (js ''Organisation'') (getprop info (js ''organization''))
                 @ field_item (js ''Referenznummer'') (getprop info (js ''reference_number''))
                 @ field_item (js ''Ort'') (getprop info (js ''location''))
           in (case list_item eng (js ''Wichtige Daten'') (getprop info (js ''important_dates'')) of
                 Inl e \<Rightarrow> (Some e, p)
               | Inr dates \<Rightarrow>
                   (case list_item eng (js ''Personen'') (getprop info (js ''persons'')) of
                      Inl e \<Rightarrow> (Some e, p)
                    | Inr persons \<Rightarrow>
                        (None, p\<lparr>extractedInfo := Some (container\<lparr>content :=
                                   Html (html @ dates @ persons @ js ''</ul>'')\<rparr>)\<rparr>)))))"

text \<open>
  \<open>result.summary.replace\<close>: only a string has the method; a truthy summary of any
  other kind raises TypeError, provided the element exists (the call is inside the
  test).
\<close>

definition write_summary :: "engine \<Rightarrow> jsval \<Rightarrow> page \<Rightarrow> exn + page" where
  "write_summary eng summary p =
     (case summaryContent p of
        None \<Rightarrow> Inr p
      | Some el \<Rightarrow>
          if truthy summary
          then (case summary of
                  Str s \<Rightarrow> Inr (p\<lparr>summaryContent := Some (el\<lparr>content := Html (summary_markup s)\<rparr>)\<rparr>)
                | _ \<Rightarrow> Inl (type_error eng (NotFunction (js ''replace''))))
          else Inr p)"

definition populateSummary :: "engine \<Rightarrow> jsval \<Rightarrow> page \<Rightarrow> exn option \<times> page" where
  "populateSummary eng result p =
     (case write_summary eng (getprop result (js ''summary'')) p of
        Inl e \<Rightarrow> (Some e, p)
      | Inr p1 \<Rightarrow>
          if truthy (getprop result (js ''extracted_info''))
          then populateExtractedInfo eng (getprop result (js ''extracted_info'')) p1
          else (None, p1))"

definition quality_class :: "engine \<Rightarrow> jsval \<Rightarrow> jsstring" where
  "quality_class eng score =
     (if ge_number eng score 80 then js ''high-quality''
      else if ge_number eng score 60 then js ''medium-quality''
      else js ''low-quality'')"

definition populateStatistics :: "engine \<Rightarrow> jsval \<Rightarrow> page \<Rightarrow> page" where
  "populateStatistics eng result p =
     (let stats = or_else (getprop result (js ''processing_stats'')) (Obj []);
          score = or_else (getprop stats (js ''quality_score'')) (Num 0)
      in p\<lparr>processingTime :=
             set_text (to_string (or_else (getprop stats (js ''total_time'')) (Num 0)) @ js '' Sekunden'')
               (processingTime p),
           qualityScore :=
             map_option (\<lambda>el. el\<lparr>content := Text (to_string score @ js ''%''),
                                  classes := {quality_class eng score}\<rparr>) (qualityScore p),
           wordCount :=
             set_text (to_string (or_else (getprop stats (js ''word_count'')) (Num 0))
                       @ js '' W'' @ [246] @ js ''rter'')
               (wordCount p),
           extractionMethod :=
             set_text (to_string (or_else (getprop stats (js ''extraction_method'')) (Str unbekannt)))
               (extractionMethod p)\<rparr>)"

definition showResultsSection :: "page \<Rightarrow> page" where
  "showResultsSection p =
     (case resultsSection p of
        None \<Rightarrow> p
      | Some el \<Rightarrow> p\<lparr>resultsSection := Some (el\<lparr>display := js ''block''\<rparr>),
                     scrolls := scrolls p + 1\<rparr>)"

subsection \<open>The submit handler\<close>

text \<open>
  \<open>pending\<close> lists the requests sent to \<open>/api/process-company\<close> that have not settled
  yet, each by the company name in its body.
\<close>

record state =
  isProcessing :: bool
  latestFilename :: jsval
  page :: page
  pending :: "jsstring list"

text \<open>
  How a request settles: \<open>fetch\<close> rejects (the timer of line 34 aborted it, or the
  network failed), or it delivers a response with a status and a body, of which
  \<open>response.json()\<close> gives either a value or an exception. \<open>response.ok\<close> is a status
  from 200 to 299.
\<close>

datatype outcome =
    Rejected exn
  | Responded nat "exn + jsval"

definition ok :: "nat \<Rightarrow> bool" where
  "ok status = (200 \<le> status \<and> status \<le> 299)"

text \<open>The \<open>catch\<close> block, lines 67 to 78.\<close>

definition error_text :: "exn \<Rightarrow> jsstring" where
  "error_text err =
     (if err_name err = js ''AbortError'' then msg_timeout
      else if includes_str (err_message err) (js ''Failed to fetch'') then msg_connection
      else if err_message err \<noteq> [] then err_message err
      else msg_unexpected)"

definition catch_block :: "exn \<Rightarrow> page \<Rightarrow> page" where
  "catch_block err p = updateStatusSection msg_failed False (showError (error_text err) p)"

text \<open>The \<open>finally\<close> block, lines 80 to 83: the handler ends with what it raises.\<close>

definition finally_block :: "engine \<Rightarrow> state \<Rightarrow> exn option \<times> state" where
  "finally_block eng s =
     (let (e, p) = setButtonLoading eng False (page s)
      in (e, s\<lparr>isProcessing := False, page := p\<rparr>))"

definition try_catch_finally :: "engine \<Rightarrow> exn option \<times> state \<Rightarrow> exn option \<times> state" where
  "try_catch_finally eng r =
     (case r of
        (None, s) \<Rightarrow> finally_block eng s
      | (Some err, s) \<Rightarrow> finally_block eng (s\<lparr>page := catch_block err (page s)\<rparr>))"

text \<open>
  Lines 13 to 43, which run when the submit event is dispatched, up to the
  \<open>await\<close> of \<open>fetch\<close>. The first component of the result is the exception the
  handler ends with, if any.
\<close>

definition submit_begin :: "engine \<Rightarrow> state \<Rightarrow> exn option \<times> state" where
  "submit_begin eng s =
     (if isProcessing s then (None, s\<lparr>page := showError msg_busy (page s)\<rparr>)
      else
        (case validateInput (clearResults (clearError (page s))) of
           (False, p) \<Rightarrow> (None, s\<lparr>page := p\<rparr>)
         | (True, p) \<Rightarrow>
             (let companyName = trim (field_value (companyInput p))
              in (case setButtonLoading eng True p of
                    (Some err, p1) \<Rightarrow>
                      try_catch_finally eng (Some err, s\<lparr>isProcessing := True, page := p1\<rparr>)
                  | (None, p1) \<Rightarrow>
                      (None, s\<lparr>isProcessing := True,
                               page := showStatusSection msg_starting p1,
                               pending := pending s @ [companyName]\<rparr>)))))"

text \<open>Lines 45 to 65, the rest of the \<open>try\<close> block once the request has settled.\<close>

definition try_after_fetch :: "engine \<Rightarrow> outcome \<Rightarrow> state \<Rightarrow> exn option \<times> state" where
  "try_after_fetch eng out s =
     (case out of
        Rejected err \<Rightarrow> (Some err, s)
      | Responded status body \<Rightarrow>
          if \<not> ok status then
            (let errorData = (case body of Inl e \<Rightarrow> Obj [] | Inr v \<Rightarrow> v)
             in if nullish errorData then (Some (type_error eng (NullRead (js ''error''))), s)
                else (Some (new_Error (or_else (getprop errorData (js ''error''))
                                         (Str (js ''HTTP Error: '' @ decimal status)))), s))
          else
            (case body of
               Inl e \<Rightarrow> (Some e, s)
             | Inr result \<Rightarrow>
                 if nullish result then (Some (type_error eng (NullRead (js ''success''))), s)
                 else if \<not> truthy (getprop result (js ''success''))
                 then (Some (new_Error (or_else (getprop result (js ''error''))
                                          (Str msg_unknown_error))), s)
                 else
                   (let s1 = s\<lparr>latestFilename := getprop result (js ''filename'')\<rparr>;
                        p1 = populateCompanyInfo result
                               (updateStatusSection msg_done True (page s1))
                    in (case populateSummary eng result p1 of
                          (Some e, p2) \<Rightarrow> (Some e, s1\<lparr>page := p2\<rparr>)
                        | (None, p2) \<Rightarrow>
                            (None, s1\<lparr>page := showResultsSection
                                                (populateStatistics eng result p2)\<rparr>)))))"

definition submit_resume :: "engine \<Rightarrow> outcome \<Rightarrow> state \<Rightarrow> exn option \<times> state" where
  "submit_resume eng out s = try_catch_finally eng (try_after_fetch eng out s)"

subsection \<open>The other handlers\<close>

text \<open>
  The click handler of the download button, lines 87 to 98. Whether the assignment
  to \<open>window.location.href\<close> raises is the browser's choice, so it comes with the
  event.
\<close>

definition download_click :: "exn option \<Rightarrow> state \<Rightarrow> exn option \<times> state" where
  "download_click raised s =
     (if \<not> truthy (latestFilename s) then (None, s\<lparr>page := showError msg_no_file (page s)\<rparr>)
      else
        (case raised of
           None \<Rightarrow>
             (None, s\<lparr>page := (page s)\<lparr>location_href :=
                        Some (js ''/download/'' @ to_string (latestFilename s))\<rparr>\<rparr>)
         | Some e \<Rightarrow> (None, s\<lparr>page := showError msg_download_failed (page s)\<rparr>)))"

text \<open>The input handler, lines 101 to 114, after the user changed the field to \<open>v\<close>.\<close>

definition input_changed :: "engine \<Rightarrow> jsstring \<Rightarrow> page \<Rightarrow> exn option \<times> page" where
  "input_changed eng v p =
     (let field = (companyInput p)\<lparr>field_value := v\<rparr>;
          p1 = p\<lparr>companyInput := field\<rparr>
      in (case searchBtn p1 of
            None \<Rightarrow> (Some (type_error eng (NullWrite (js ''disabled''))), p1)
          | Some btn \<Rightarrow>
              if length (trim v) \<ge> 3
              then (None, p1\<lparr>searchBtn := Some (btn\<lparr>disabled := False\<rparr>),
                             companyInput := field\<lparr>field_classes := field_classes field - {js ''error''}\<rparr>\<rparr>)
              else (None, p1\<lparr>searchBtn := Some (btn\<lparr>disabled := True\<rparr>),
                             companyInput :=
                               (if length (trim v) > 0
                                then field\<lparr>field_classes := insert (js ''error'') (field_classes field)\<rparr>
                                else field)\<rparr>)))"

text \<open>
  The keydown handler, lines 352 to 363. \<open>dispatchEvent\<close> runs the submit handler
  up to its \<open>await\<close>; what that handler raises stays in its promise.
\<close>

definition key_down :: "engine \<Rightarrow> bool \<Rightarrow> jsstring \<Rightarrow> state \<Rightarrow> state" where
  "key_down eng ctrlKey key s =
     (let s1 = (if ctrlKey \<and> key = js ''Enter'' \<and> \<not> isProcessing s
                then snd (submit_begin eng s) else s)
      in if key = js ''Escape'' then s1\<lparr>page := clearError (page s1)\<rparr> else s1)"

text \<open>One of the timers that \<open>showError\<close> started fires.\<close>

definition error_timer :: "page \<Rightarrow> page" where
  "error_timer p =
     (if clear_timers p > 0 then (clearError p)\<lparr>clear_timers := clear_timers p - 1\<rparr> else p)"

subsection \<open>Events\<close>

text \<open>
  The page runs one handler at a time. A request settles only if one is pending;
  the two \<open>await\<close>s of the handler (the response, then its body) are taken in one
  step.
\<close>

datatype event =
    Submit
  | Settle outcome
  | DownloadClick "exn option"
  | InputEv jsstring
  | KeyDown bool jsstring
  | ErrorTimer

fun step :: "engine \<Rightarrow> state \<Rightarrow> event \<Rightarrow> state" where
  "step eng s Submit = snd (submit_begin eng s)"
| "step eng s (Settle out) =
     (case pending s of
        [] \<Rightarrow> s
      | c # cs \<Rightarrow> snd (submit_resume eng out (s\<lparr>pending := cs\<rparr>)))"
| "step eng s (DownloadClick raised) = snd (download_click raised s)"
| "step eng s (InputEv v) = s\<lparr>page := snd (input_changed eng v (page s))\<rparr>"
| "step eng s (KeyDown ctrlKey key) = key_down eng ctrlKey key s"
| "step eng s ErrorTimer = s\<lparr>page := error_timer (page s)\<rparr>"

definition run :: "engine \<Rightarrow> state \<Rightarrow> event list \<Rightarrow> state" where
  "run eng s evs = foldl (step eng) s evs"

subsection \<open>The specification's reading of validation and of success\<close>

text \<open>
  The four constraints of the specification, in its order, each with the message of
  its rejection; \<open>first_failure\<close> is the message of the first constraint that the
  trimmed input fails, if there is one.
\<close>

definition constraints :: "((jsstring \<Rightarrow> bool) \<times> jsstring) list" where
  "constraints =
     [(\<lambda>t. t \<noteq> [], msg_missing),
      (\<lambda>t. length t \<ge> 3, msg_too_short),
      (\<lambda>t. length t \<le> 200, msg_too_long),
      (\<lambda>t. \<not> list_ex suspicious t, msg_forbidden)]"

definition first_failure :: "jsstring \<Rightarrow> jsstring option" where
  "first_failure t =
     (case filter (\<lambda>(holds, message). \<not> holds t) constraints of
        [] \<Rightarrow> None
      | (holds, message) # rest \<Rightarrow> Some message)"





subsection \<open>The page after the populate calls\<close>

text \<open>
  The page after the three populate calls of lines 62 to 64, before
  \<open>showResultsSection\<close>, and the elements that they fill.
\<close>

definition populated :: "engine \<Rightarrow> jsval \<Rightarrow> page \<Rightarrow> page" where
  "populated eng result p =
     populateStatistics eng result (snd (populateSummary eng result (populateCompanyInfo result p)))"

definition regions :: "page \<Rightarrow> element option list" where
  "regions p =
     [companyName_result p, fileSize p, fileName p, summaryContent p, extractedInfo p,
      processingTime p, qualityScore p, wordCount p, extractionMethod p]"

subsection \<open>One request at a time\<close>

text \<open>
  At most one request is pending, and \<open>isProcessing\<close> is true exactly while one is.
\<close>

definition one_request :: "state \<Rightarrow> bool" where
  "one_request s = (length (pending s) \<le> 1 \<and> isProcessing s = (pending s \<noteq> []))"

subsection \<open>A page and an engine to evaluate on\<close>

definition blank :: element where
  "blank = \<lparr>content = Text [], display = [], classes = {}, disabled = False\<rparr>"

definition sample_page :: page where
  "sample_page =
     \<lparr>companyInput = \<lparr>field_value = js ''Acme Corp'', field_classes = {}, focused = False\<rparr>,
      downloadBtn = blank,
      searchBtn = Some blank, btnText = Some blank, btnIcon = Some blank,
      errorMessage = Some blank, resultsSection = Some blank, statusSection = Some blank,
      statusList = Some blank, companyName_result = Some blank, fileSize = Some blank,
      fileName = Some blank, summaryContent = Some blank, extractedInfo = Some blank,
      processingTime = Some blank, qualityScore = Some blank, wordCount = Some blank,
      extractionMethod = Some blank,
      clear_timers = 0, scrolls = 0, location_href = None\<rparr>"

text \<open>The state after set-up (lines 8 and 9), and the same with a request under way.\<close>

definition idle :: state where
  "idle = \<lparr>isProcessing = False, latestFilename = Str [], page = sample_page, pending = []\<rparr>"

definition busy :: state where
  "busy = \<lparr>isProcessing = True, latestFilename = Str [], page = sample_page,
           pending = [js ''Acme Corp'']\<rparr>"

definition sample_engine :: engine where
  "sample_engine =
     \<lparr>type_error_message = (\<lambda>f. case f of
          NullRead k \<Rightarrow> js ''Cannot read properties of null''
        | NullWrite k \<Rightarrow> js ''Cannot set properties of null''
        | NotFunction k \<Rightarrow> k @ js '' is not a function''),
      string_ge = (\<lambda>s k. False)\<rparr>"




definition fetch_complaint :: jsval where
  "fetch_complaint = Obj [(js ''error'', Str (js ''Failed to fetch PDF from register''))]"

definition markup_summary :: jsval where
  "markup_summary = Obj [(js ''success'', Bool True),
                         (js ''summary'', Str (js ''<img src=x onerror=alert(1)>''))]"


section \<open>Properties\<close>

subsection \<open>Strings\<close>






subsection \<open>What the page functions leave alone\<close>

lemma showError_banner: "map_option content (errorMessage (showError m p)) = map_option (\<lambda>_. Text m) (errorMessage p)"
  by (simp add: showError_def split: option.splits)

lemma showError_frame [simp]:
  "companyInput (showError m p) = companyInput p"
  "downloadBtn (showError m p) = downloadBtn p"
  "searchBtn (showError m p) = searchBtn p"
  "btnText (showError m p) = btnText p"
  "btnIcon (showError m p) = btnIcon p"
  "resultsSection (showError m p) = resultsSection p"
  "statusSection (showError m p) = statusSection p"
  "statusList (showError m p) = statusList p"
  "companyName_result (showError m p) = companyName_result p"
  "fileSize (showError m p) = fileSize p"
  "fileName (showError m p) = fileName p"
  "summaryContent (showError m p) = summaryContent p"
  "extractedInfo (showError m p) = extractedInfo p"
  "processingTime (showError m p) = processingTime p"
  "qualityScore (showError m p) = qualityScore p"
  "wordCount (showError m p) = wordCount p"
  "extractionMethod (showError m p) = extractionMethod p"
  "scrolls (showError m p) = scrolls p"
  "location_href (showError m p) = location_href p"
  by (simp_all add: showError_def split: option.splits)

lemma clearError_frame [simp]:
  "companyInput (clearError p) = companyInput p"
  "downloadBtn (clearError p) = downloadBtn p"
  "searchBtn (clearError p) = searchBtn p"
  "btnText (clearError p) = btnText p"
  "btnIcon (clearError p) = btnIcon p"
  "resultsSection (clearError p) = resultsSection p"
  "statusSection (clearError p) = statusSection p"
  "statusList (clearError p) = statusList p"
  "companyName_result (clearError p) = companyName_result p"
  "fileSize (clearError p) = fileSize p"
  "fileName (clearError p) = fileName p"
  "summaryContent (clearError p) = summaryContent p"
  "extractedInfo (clearError p) = extractedInfo p"
  "processingTime (clearError p) = processingTime p"
  "qualityScore (clearError p) = qualityScore p"
  "wordCount (clearError p) = wordCount p"
  "extractionMethod (clearError p) = extractionMethod p"
  "clear_timers (clearError p) = clear_timers p"
  "scrolls (clearError p) = scrolls p"
  "location_href (clearError p) = location_href p"
  by (simp_all add: clearError_def split: option.splits)

lemma clearResults_frame [simp]:
  "companyInput (clearResults p) = companyInput p"
  "downloadBtn (clearResults p) = downloadBtn p"
  "searchBtn (clearResults p) = searchBtn p"
  "btnText (clearResults p) = btnText p"
  "btnIcon (clearResults p) = btnIcon p"
  "errorMessage (clearResults p) = errorMessage p"
  "statusList (clearResults p) = statusList p"
  "companyName_result (clearResults p) = companyName_result p"
  "fileSize (clearResults p) = fileSize p"
  "fileName (clearResults p) = fileName p"
  "summaryContent (clearResults p) = summaryContent p"
  "extractedInfo (clearResults p) = extractedInfo p"
  "processingTime (clearResults p) = processingTime p"
  "qualityScore (clearResults p) = qualityScore p"
  "wordCount (clearResults p) = wordCount p"
  "extractionMethod (clearResults p) = extractionMethod p"
  "clear_timers (clearResults p) = clear_timers p"
  "scrolls (clearResults p) = scrolls p"
  "location_href (clearResults p) = location_href p"
  by (simp_all add: clearResults_def)

lemma setButtonLoading_frame [simp]:
  "companyInput (snd (setButtonLoading eng b p)) = companyInput p"
  "downloadBtn (snd (setButtonLoading eng b p)) = downloadBtn p"
  "errorMessage (snd (setButtonLoading eng b p)) = errorMessage p"
  "resultsSection (snd (setButtonLoading eng b p)) = resultsSection p"
  "statusSection (snd (setButtonLoading eng b p)) = statusSection p"
  "statusList (snd (setButtonLoading eng b p)) = statusList p"
  "companyName_result (snd (setButtonLoading eng b p)) = companyName_result p"
  "fileSize (snd (setButtonLoading eng b p)) = fileSize p"
  "fileName (snd (setButtonLoading eng b p)) = fileName p"
  "summaryContent (snd (setButtonLoading eng b p)) = summaryContent p"
  "extractedInfo (snd (setButtonLoading eng b p)) = extractedInfo p"
  "processingTime (snd (setButtonLoading eng b p)) = processingTime p"
  "qualityScore (snd (setButtonLoading eng b p)) = qualityScore p"
  "wordCount (snd (setButtonLoading eng b p)) = wordCount p"
  "extractionMethod (snd (setButtonLoading eng b p)) = extractionMethod p"
  "clear_timers (snd (setButtonLoading eng b p)) = clear_timers p"
  "scrolls (snd (setButtonLoading eng b p)) = scrolls p"
  "location_href (snd (setButtonLoading eng b p)) = location_href p"
  by (simp_all add: setButtonLoading_def Let_def split: option.splits)

lemma showStatusSection_frame [simp]:
  "companyInput (showStatusSection m p) = companyInput p"
  "downloadBtn (showStatusSection m p) = downloadBtn p"
  "searchBtn (showStatusSection m p) = searchBtn p"
  "btnText (showStatusSection m p) = btnText p"
  "btnIcon (showStatusSection m p) = btnIcon p"
  "errorMessage (showStatusSection m p) = errorMessage p"
  "resultsSection (showStatusSection m p) = resultsSection p"
  "companyName_result (showStatusSection m p) = companyName_result p"
  "fileSize (showStatusSection m p) = fileSize p"
  "fileName (showStatusSection m p) = fileName p"
  "summaryContent (showStatusSection m p) = summaryContent p"
  "extractedInfo (showStatusSection m p) = extractedInfo p"
  "processingTime (showStatusSection m p) = processingTime p"
  "qualityScore (showStatusSection m p) = qualityScore p"
  "wordCount (showStatusSection m p) = wordCount p"
  "extractionMethod (showStatusSection m p) = extractionMethod p"
  "clear_timers (showStatusSection m p) = clear_timers p"
  "scrolls (showStatusSection m p) = scrolls p"
  "location_href (showStatusSection m p) = location_href p"
  by (simp_all add: showStatusSection_def split: option.splits)

lemma updateStatusSection_frame [simp]:
  "companyInput (updateStatusSection m b p) = companyInput p"
  "downloadBtn (updateStatusSection m b p) = downloadBtn p"
  "searchBtn (updateStatusSection m b p) = searchBtn p"
  "btnText (updateStatusSection m b p) = btnText p"
  "btnIcon (updateStatusSection m b p) = btnIcon p"
  "errorMessage (updateStatusSection m b p) = errorMessage p"
  "resultsSection (updateStatusSection m b p) = resultsSection p"
  "statusSection (updateStatusSection m b p) = statusSection p"
  "companyName_result (updateStatusSection m b p) = companyName_result p"
  "fileSize (updateStatusSection m b p) = fileSize p"
  "fileName (updateStatusSection m b p) = fileName p"
  "summaryContent (updateStatusSection m b p) = summaryContent p"
  "extractedInfo (updateStatusSection m b p) = extractedInfo p"
  "processingTime (updateStatusSection m b p) = processingTime p"
  "qualityScore (updateStatusSection m b p) = qualityScore p"
  "wordCount (updateStatusSection m b p) = wordCount p"
  "extractionMethod (updateStatusSection m b p) = extractionMethod p"
  "clear_timers (updateStatusSection m b p) = clear_timers p"
  "scrolls (updateStatusSection m b p) = scrolls p"
  "location_href (updateStatusSection m b p) = location_href p"
  by (simp_all add: updateStatusSection_def Let_def split: option.splits)

lemma validateInput_frame [simp]:
  "downloadBtn (snd (validateInput p)) = downloadBtn p"
  "searchBtn (snd (validateInput p)) = searchBtn p"
  "btnText (snd (validateInput p)) = btnText p"
  "btnIcon (snd (validateInput p)) = btnIcon p"
  "resultsSection (snd (validateInput p)) = resultsSection p"
  "statusSection (snd (validateInput p)) = statusSection p"
  "statusList (snd (validateInput p)) = statusList p"
  "companyName_result (snd (validateInput p)) = companyName_result p"
  "fileSize (snd (validateInput p)) = fileSize p"
  "fileName (snd (validateInput p)) = fileName p"
  "summaryContent (snd (validateInput p)) = summaryContent p"
  "extractedInfo (snd (validateInput p)) = extractedInfo p"
  "processingTime (snd (validateInput p)) = processingTime p"
  "qualityScore (snd (validateInput p)) = qualityScore p"
  "wordCount (snd (validateInput p)) = wordCount p"
  "extractionMethod (snd (validateInput p)) = extractionMethod p"
  "scrolls (snd (validateInput p)) = scrolls p"
  "location_href (snd (validateInput p)) = location_href p"
  by (simp_all add: validateInput_def reject_def Let_def)

lemma populateCompanyInfo_frame [simp]:
  "companyInput (populateCompanyInfo r p) = companyInput p"
  "searchBtn (populateCompanyInfo r p) = searchBtn p"
  "btnText (populateCompanyInfo r p) = btnText p"
  "btnIcon (populateCompanyInfo r p) = btnIcon p"
  "errorMessage (populateCompanyInfo r p) = errorMessage p"
  "resultsSection (populateCompanyInfo r p) = resultsSection p"
  "statusSection (populateCompanyInfo r p) = statusSection p"
  "statusList (populateCompanyInfo r p) = statusList p"
  "summaryContent (populateCompanyInfo r p) = summaryContent p"
  "extractedInfo (populateCompanyInfo r p) = extractedInfo p"
  "processingTime (populateCompanyInfo r p) = processingTime p"
  "qualityScore (populateCompanyInfo r p) = qualityScore p"
  "wordCount (populateCompanyInfo r p) = wordCount p"
  "extractionMethod (populateCompanyInfo r p) = extractionMethod p"
  "clear_timers (populateCompanyInfo r p) = clear_timers p"
  "scrolls (populateCompanyInfo r p) = scrolls p"
  "location_href (populateCompanyInfo r p) = location_href p"
  by (simp_all add: populateCompanyInfo_def)

lemma populateExtractedInfo_frame [simp]:
  "companyInput (snd (populateExtractedInfo eng i p)) = companyInput p"
  "downloadBtn (snd (populateExtractedInfo eng i p)) = downloadBtn p"
  "searchBtn (snd (populateExtractedInfo eng i p)) = searchBtn p"
  "btnText (snd (populateExtractedInfo eng i p)) = btnText p"
  "btnIcon (snd (populateExtractedInfo eng i p)) = btnIcon p"
  "errorMessage (snd (populateExtractedInfo eng i p)) = errorMessage p"
  "resultsSection (snd (populateExtractedInfo eng i p)) = resultsSection p"
  "statusSection (snd (populateExtractedInfo eng i p)) = statusSection p"
  "statusList (snd (populateExtractedInfo eng i p)) = statusList p"
  "companyName_result (snd (populateExtractedInfo eng i p)) = companyName_result p"
  "fileSize (snd (populateExtractedInfo eng i p)) = fileSize p"
  "fileName (snd (populateExtractedInfo eng i p)) = fileName p"
  "summaryContent (snd (populateExtractedInfo eng i p)) = summaryContent p"
  "processingTime (snd (populateExtractedInfo eng i p)) = processingTime p"
  "qualityScore (snd (populateExtractedInfo eng i p)) = qualityScore p"
  "wordCount (snd (populateExtractedInfo eng i p)) = wordCount p"
  "extractionMethod (snd (populateExtractedInfo eng i p)) = extractionMethod p"
  "clear_timers (snd (populateExtractedInfo eng i p)) = clear_timers p"
  "scrolls (snd (populateExtractedInfo eng i p)) = scrolls p"
  "location_href (snd (populateExtractedInfo eng i p)) = location_href p"
  by (simp_all add: populateExtractedInfo_def Let_def split: option.splits sum.splits)

lemma populateSummary_frame [simp]:
  "companyInput (snd (populateSummary eng r p)) = companyInput p"
  "downloadBtn (snd (populateSummary eng r p)) = downloadBtn p"
  "searchBtn (snd (populateSummary eng r p)) = searchBtn p"
  "btnText (snd (populateSummary eng r p)) = btnText p"
  "btnIcon (snd (populateSummary eng r p)) = btnIcon p"
  "errorMessage (snd (populateSummary eng r p)) = errorMessage p"
  "resultsSection (snd (populateSummary eng r p)) = resultsSection p"
  "statusSection (snd (populateSummary eng r p)) = statusSection p"
  "statusList (snd (populateSummary eng r p)) = statusList p"
  "companyName_result (snd (populateSummary eng r p)) = companyName_result p"
  "fileSize (snd (populateSummary eng r p)) = fileSize p"
  "fileName (snd (populateSummary eng r p)) = fileName p"
  "processingTime (snd (populateSummary eng r p)) = processingTime p"
  "qualityScore (snd (populateSummary eng r p)) = qualityScore p"
  "wordCount (snd (populateSummary eng r p)) = wordCount p"
  "extractionMethod (snd (populateSummary eng r p)) = extractionMethod p"
  "clear_timers (snd (populateSummary eng r p)) = clear_timers p"
  "scrolls (snd (populateSummary eng r p)) = scrolls p"
  "location_href (snd (populateSummary eng r p)) = location_href p"
  by (auto simp: populateSummary_def write_summary_def split: option.splits sum.splits jsval.splits)

lemma populateStatistics_frame [simp]:
  "companyInput (populateStatistics eng r p) = companyInput p"
  "downloadBtn (populateStatistics eng r p) = downloadBtn p"
  "searchBtn (populateStatistics eng r p) = searchBtn p"
  "btnText (populateStatistics eng r p) = btnText p"
  "btnIcon (populateStatistics eng r p) = btnIcon p"
  "errorMessage (populateStatistics eng r p) = errorMessage p"
  "resultsSection (populateStatistics eng r p) = resultsSection p"
  "statusSection (populateStatistics eng r p) = statusSection p"
  "statusList (populateStatistics eng r p) = statusList p"
  "companyName_result (populateStatistics eng r p) = companyName_result p"
  "fileSize (populateStatistics eng r p) = fileSize p"
  "fileName (populateStatistics eng r p) = fileName p"
  "summaryContent (populateStatistics eng r p) = summaryContent p"
  "extractedInfo (populateStatistics eng r p) = extractedInfo p"
  "clear_timers (populateStatistics eng r p) = clear_timers p"
  "scrolls (populateStatistics eng r p) = scrolls p"
  "location_href (populateStatistics eng r p) = location_href p"
  by (simp_all add: populateStatistics_def Let_def)

lemma showResultsSection_frame [simp]:
  "companyInput (showResultsSection p) = companyInput p"
  "downloadBtn (showResultsSection p) = downloadBtn p"
  "searchBtn (showResultsSection p) = searchBtn p"
  "btnText (showResultsSection p) = btnText p"
  "btnIcon (showResultsSection p) = btnIcon p"
  "errorMessage (showResultsSection p) = errorMessage p"
  "statusSection (showResultsSection p) = statusSection p"
  "statusList (showResultsSection p) = statusList p"
  "companyName_result (showResultsSection p) = companyName_result p"
  "fileSize (showResultsSection p) = fileSize p"
  "fileName (showResultsSection p) = fileName p"
  "summaryContent (showResultsSection p) = summaryContent p"
  "extractedInfo (showResultsSection p) = extractedInfo p"
  "processingTime (showResultsSection p) = processingTime p"
  "qualityScore (showResultsSection p) = qualityScore p"
  "wordCount (showResultsSection p) = wordCount p"
  "extractionMethod (showResultsSection p) = extractionMethod p"
  "clear_timers (showResultsSection p) = clear_timers p"
  "location_href (showResultsSection p) = location_href p"
  by (simp_all add: showResultsSection_def split: option.splits)

lemma input_changed_frame [simp]:
  "downloadBtn (snd (input_changed eng v p)) = downloadBtn p"
  "btnText (snd (input_changed eng v p)) = btnText p"
  "btnIcon (snd (input_changed eng v p)) = btnIcon p"
  "errorMessage (snd (input_changed eng v p)) = errorMessage p"
  "resultsSection (snd (input_changed eng v p)) = resultsSection p"
  "statusSection (snd (input_changed eng v p)) = statusSection p"
  "statusList (snd (input_changed eng v p)) = statusList p"
  "companyName_result (snd (input_changed eng v p)) = companyName_result p"
  "fileSize (snd (input_changed eng v p)) = fileSize p"
  "fileName (snd (input_changed eng v p)) = fileName p"
  "summaryContent (snd (input_changed eng v p)) = summaryContent p"
  "extractedInfo (snd (input_changed eng v p)) = extractedInfo p"
  "processingTime (snd (input_changed eng v p)) = processingTime p"
  "qualityScore (snd (input_changed eng v p)) = qualityScore p"
  "wordCount (snd (input_changed eng v p)) = wordCount p"
  "extractionMethod (snd (input_changed eng v p)) = extractionMethod p"
  "clear_timers (snd (input_changed eng v p)) = clear_timers p"
  "scrolls (snd (input_changed eng v p)) = scrolls p"
  "location_href (snd (input_changed eng v p)) = location_href p"
  by (simp_all add: input_changed_def Let_def split: option.splits)

lemma error_timer_frame [simp]:
  "companyInput (error_timer p) = companyInput p"
  "downloadBtn (error_timer p) = downloadBtn p"
  "searchBtn (error_timer p) = searchBtn p"
  "btnText (error_timer p) = btnText p"
  "btnIcon (error_timer p) = btnIcon p"
  "resultsSection (error_timer p) = resultsSection p"
  "statusSection (error_timer p) = statusSection p"
  "statusList (error_timer p) = statusList p"
  "companyName_result (error_timer p) = companyName_result p"
  "fileSize (error_timer p) = fileSize p"
  "fileName (error_timer p) = fileName p"
  "summaryContent (error_timer p) = summaryContent p"
  "extractedInfo (error_timer p) = extractedInfo p"
  "processingTime (error_timer p) = processingTime p"
  "qualityScore (error_timer p) = qualityScore p"
  "wordCount (error_timer p) = wordCount p"
  "extractionMethod (error_timer p) = extractionMethod p"
  "scrolls (error_timer p) = scrolls p"
  "location_href (error_timer p) = location_href p"
  by (simp_all add: error_timer_def)

lemma catch_block_frame [simp]:
  "companyInput (catch_block err p) = companyInput p"
  "downloadBtn (catch_block err p) = downloadBtn p"
  "searchBtn (catch_block err p) = searchBtn p"
  "btnText (catch_block err p) = btnText p"
  "btnIcon (catch_block err p) = btnIcon p"
  "resultsSection (catch_block err p) = resultsSection p"
  "statusSection (catch_block err p) = statusSection p"
  "companyName_result (catch_block err p) = companyName_result p"
  "fileSize (catch_block err p) = fileSize p"
  "fileName (catch_block err p) = fileName p"
  "summaryContent (catch_block err p) = summaryContent p"
  "extractedInfo (catch_block err p) = extractedInfo p"
  "processingTime (catch_block err p) = processingTime p"
  "qualityScore (catch_block err p) = qualityScore p"
  "wordCount (catch_block err p) = wordCount p"
  "extractionMethod (catch_block err p) = extractionMethod p"
  "scrolls (catch_block err p) = scrolls p"
  "location_href (catch_block err p) = location_href p"
  by (simp_all add: catch_block_def)

lemma setButtonLoading_ok:
  "searchBtn p = Some btn \<Longrightarrow> btnText p = Some t \<Longrightarrow>
     fst (setButtonLoading eng b p) = None \<and>
     searchBtn (snd (setButtonLoading eng b p)) =
       Some (btn\<lparr>disabled := b, classes := (if b then insert (js ''loading'') (classes btn) else classes btn - {js ''loading''})\<rparr>)"
  by (simp add: setButtonLoading_def Let_def)

lemma finally_fields:
  "isProcessing (snd (finally_block eng s)) = False"
  "latestFilename (snd (finally_block eng s)) = latestFilename s"
  "pending (snd (finally_block eng s)) = pending s"
  "page (snd (finally_block eng s)) = snd (setButtonLoading eng False (page s))"
  "fst (finally_block eng s) = fst (setButtonLoading eng False (page s))"
  by (simp_all add: finally_block_def split: prod.splits)


subsection \<open>The variables of the controller\<close>

lemma tcf_fields:
  "isProcessing (snd (try_catch_finally eng r)) = False"
  "pending (snd (try_catch_finally eng r)) = pending (snd r)"
  "latestFilename (snd (try_catch_finally eng r)) = latestFilename (snd r)"
  by (simp_all add: try_catch_finally_def finally_fields split: prod.splits option.splits)

lemma taf_fields:
  "isProcessing (snd (try_after_fetch eng out s)) = isProcessing s"
  "pending (snd (try_after_fetch eng out s)) = pending s"
  by (simp_all add: try_after_fetch_def Let_def split: outcome.splits sum.splits prod.splits option.splits)

lemma resume_fields:
  "isProcessing (snd (submit_resume eng out s)) = False"
  "pending (snd (submit_resume eng out s)) = pending s"
  by (simp_all add: submit_resume_def tcf_fields taf_fields)

lemma begin_busy:
  "isProcessing s \<Longrightarrow> submit_begin eng s = (None, s\<lparr>page := showError msg_busy (page s)\<rparr>)"
  by (simp add: submit_begin_def)

lemma begin_one_request:
  "one_request s \<Longrightarrow> one_request (snd (submit_begin eng s))"
  by (auto simp: one_request_def submit_begin_def Let_def tcf_fields
      split: prod.splits option.splits bool.splits)

lemma step_one_request: "one_request s \<Longrightarrow> one_request (step eng s ev)"
proof (cases ev)
  case Submit
  assume "one_request s"
  then show ?thesis using Submit by (simp add: begin_one_request)
next
  case (Settle out)
  assume "one_request s"
  then show ?thesis using Settle
    by (cases "pending s") (auto simp: one_request_def resume_fields)
next
  case (DownloadClick raised)
  assume "one_request s"
  then show ?thesis using DownloadClick
    by (auto simp: one_request_def download_click_def split: option.splits)
next
  case (InputEv v)
  assume "one_request s"
  then show ?thesis using InputEv by (simp add: one_request_def)
next
  case (KeyDown c k)
  assume a: "one_request s"
  have "one_request (snd (submit_begin eng s))" using a by (rule begin_one_request)
  then show ?thesis using KeyDown a
    by (auto simp: key_down_def Let_def one_request_def)
next
  case ErrorTimer
  assume "one_request s"
  then show ?thesis using ErrorTimer by (simp add: one_request_def)
qed

lemma run_one_request: "one_request s \<Longrightarrow> one_request (run eng s evs)"
  unfolding run_def by (induction evs arbitrary: s) (simp_all add: step_one_request)


lemma taf_page_frame:
  "searchBtn (page (snd (try_after_fetch eng out s))) = searchBtn (page s)"
  "btnText (page (snd (try_after_fetch eng out s))) = btnText (page s)"
  "location_href (page (snd (try_after_fetch eng out s))) = location_href (page s)"
  by (simp_all add: try_after_fetch_def Let_def split_beta split: outcome.splits sum.splits option.splits)

lemma begin_no_request_while_busy:
  "isProcessing s \<Longrightarrow> pending (step eng s ev) = pending s \<or> pending (step eng s ev) = tl (pending s)"
  by (cases ev) (auto simp: begin_busy resume_fields download_click_def key_down_def Let_def
      split: list.splits option.splits)

text \<open>
  C4. A submission attempt while \<open>isProcessing\<close> is true only shows the busy
  message: the handler returns with the variables and the pending requests as they
  were, and no event of any kind adds a request while one is being processed. So,
  from a state with no request under way, no sequence of events leads to two
  pending requests, and \<open>isProcessing\<close> is true exactly while one is pending.
\<close>

theorem busy_submission_rejected:
  "(isProcessing s \<longrightarrow>
      submit_begin eng s = (None, s\<lparr>page := showError msg_busy (page s)\<rparr>)
      \<and> map_option content (errorMessage (page (snd (submit_begin eng s))))
          = map_option (\<lambda>el. Text msg_busy) (errorMessage (page s))
      \<and> length (pending (step eng s ev)) \<le> length (pending s))
   \<and> (\<not> isProcessing s0 \<and> pending s0 = [] \<longrightarrow>
      length (pending (run eng s0 evs)) \<le> 1
      \<and> isProcessing (run eng s0 evs) = (pending (run eng s0 evs) \<noteq> []))"
proof -
  have gate: "length (pending (step eng s ev)) \<le> length (pending s)" if "isProcessing s"
    using begin_no_request_while_busy [OF that, of eng ev] by (cases "pending s") auto
  have inv: "one_request (run eng s0 evs)" if "\<not> isProcessing s0" "pending s0 = []"
    by (rule run_one_request) (simp add: one_request_def that)
  show ?thesis
    using gate inv by (auto simp: begin_busy one_request_def showError_banner)
qed

theorem busy_submission_rejected_witness:
  "isProcessing busy
   \<and> submit_begin sample_engine busy = (None, busy\<lparr>page := showError msg_busy (page busy)\<rparr>)
   \<and> \<not> isProcessing idle \<and> pending idle = []
   \<and> length (pending (run sample_engine idle [Submit, Submit, KeyDown True (js ''Enter'')])) \<le> 1"
  using busy_submission_rejected [of busy sample_engine Submit idle "[Submit, Submit, KeyDown True (js ''Enter'')]"]
  by (simp add: busy_def idle_def)


subsection \<open>Leaving the processing state\<close>

lemma resume_page:
  "page (snd (submit_resume eng out s)) =
     snd (setButtonLoading eng False
       (case fst (try_after_fetch eng out s) of
          None \<Rightarrow> page (snd (try_after_fetch eng out s))
        | Some err \<Rightarrow> catch_block err (page (snd (try_after_fetch eng out s)))))"
  "fst (submit_resume eng out s) =
     fst (setButtonLoading eng False
       (case fst (try_after_fetch eng out s) of
          None \<Rightarrow> page (snd (try_after_fetch eng out s))
        | Some err \<Rightarrow> catch_block err (page (snd (try_after_fetch eng out s)))))"
  by (simp_all add: submit_resume_def try_catch_finally_def finally_fields split_beta split: option.splits)

lemma before_finally_button:
  "searchBtn (case fst (try_after_fetch eng out s) of
          None \<Rightarrow> page (snd (try_after_fetch eng out s))
        | Some err \<Rightarrow> catch_block err (page (snd (try_after_fetch eng out s)))) = searchBtn (page s)"
  "btnText (case fst (try_after_fetch eng out s) of
          None \<Rightarrow> page (snd (try_after_fetch eng out s))
        | Some err \<Rightarrow> catch_block err (page (snd (try_after_fetch eng out s)))) = btnText (page s)"
  by (simp_all add: taf_page_frame split: option.splits)

lemma begin_accepts:
  "\<not> isProcessing s \<Longrightarrow>
   isProcessing (snd (submit_begin eng s)) =
     (pending (snd (submit_begin eng s)) = pending s @ [trim (field_value (companyInput (page s)))])"
  by (auto simp: submit_begin_def Let_def tcf_fields validateInput_def reject_def
      split: prod.splits option.splits bool.splits)

text \<open>
  C3. However the request settles (\<open>fetch\<close> rejects, the response is a failure, its
  body cannot be decoded, reading it or rendering it raises, or all succeeds), the
  handler leaves \<open>isProcessing\<close> false. A submission that passes the gate sets it true
  exactly when it sends the request. On a page that has the submit control and its
  text, the handler ends without an exception and the control is enabled again,
  without its \<open>loading\<close> class.
\<close>

theorem processing_always_left:
  "\<not> isProcessing (snd (submit_resume eng out s))
   \<and> (\<not> isProcessing s0 \<longrightarrow>
        isProcessing (snd (submit_begin eng s0)) =
          (pending (snd (submit_begin eng s0)) = pending s0 @ [trim (field_value (companyInput (page s0)))]))
   \<and> (searchBtn (page s) \<noteq> None \<and> btnText (page s) \<noteq> None \<longrightarrow>
        fst (submit_resume eng out s) = None
        \<and> map_option disabled (searchBtn (page (snd (submit_resume eng out s)))) = Some False
        \<and> map_option (\<lambda>el. js ''loading'' \<in> classes el)
             (searchBtn (page (snd (submit_resume eng out s)))) = Some False)"
proof -
  have a: "\<not> isProcessing (snd (submit_resume eng out s))"
    by (simp add: resume_fields)
  have b: "fst (submit_resume eng out s) = None
        \<and> map_option disabled (searchBtn (page (snd (submit_resume eng out s)))) = Some False
        \<and> map_option (\<lambda>el. js ''loading'' \<in> classes el)
             (searchBtn (page (snd (submit_resume eng out s)))) = Some False"
    if "searchBtn (page s) \<noteq> None" "btnText (page s) \<noteq> None"
  proof -
    from that obtain btn t where bt: "searchBtn (page s) = Some btn" "btnText (page s) = Some t"
      by auto
    show ?thesis
      using setButtonLoading_ok [of _ btn t eng False] bt
      by (simp add: resume_page before_finally_button)
  qed
  show ?thesis using a b begin_accepts by blast
qed

theorem processing_always_left_witness:
  "\<not> isProcessing idle \<and> searchBtn (page busy) \<noteq> None \<and> btnText (page busy) \<noteq> None
   \<and> isProcessing (snd (submit_begin sample_engine idle)) =
         (pending (snd (submit_begin sample_engine idle))
            = pending idle @ [trim (field_value (companyInput (page idle)))])
   \<and> \<not> isProcessing (snd (submit_resume sample_engine (Rejected \<lparr>err_name = js ''AbortError'', err_message = []\<rparr>) busy))
   \<and> fst (submit_resume sample_engine (Rejected \<lparr>err_name = js ''AbortError'', err_message = []\<rparr>) busy) = None
   \<and> map_option disabled (searchBtn (page (snd (submit_resume sample_engine
         (Rejected \<lparr>err_name = js ''AbortError'', err_message = []\<rparr>) busy)))) = Some False"
  using processing_always_left [of sample_engine "Rejected \<lparr>err_name = js ''AbortError'', err_message = []\<rparr>" busy idle]
  by (simp add: busy_def idle_def sample_page_def)


subsection \<open>The recorded filename\<close>









subsection \<open>The download button\<close>








subsection \<open>Validation\<close>

lemma first_failure_cases:
  "first_failure t =
     (if t = [] then Some msg_missing
      else if length t < 3 then Some msg_too_short
      else if length t > 200 then Some msg_too_long
      else if list_ex suspicious t then Some msg_forbidden
      else None)"
  by (simp add: first_failure_def constraints_def)

lemma validate_first_failure:
  "validateInput p =
     (case first_failure (trim (field_value (companyInput p))) of
        None \<Rightarrow> (True, p)
      | Some m \<Rightarrow> reject m p)"
  by (simp add: validateInput_def first_failure_cases Let_def)

lemma reject_banner:
  "fst (reject m p) = False"
  "map_option content (errorMessage (snd (reject m p))) = map_option (\<lambda>el. Text m) (errorMessage p)"
  "clear_timers (snd (reject m p)) = clear_timers p + (if errorMessage p = None then 0 else 1)"
  by (simp_all add: reject_def Let_def showError_def split: option.splits)

lemma begin_rejected:
  assumes "\<not> isProcessing s"
    and "first_failure (trim (field_value (companyInput (page s)))) = Some m"
  shows "submit_begin eng s = (None, s\<lparr>page := snd (reject m (clearResults (clearError (page s))))\<rparr>)"
  using assms by (simp add: submit_begin_def validate_first_failure reject_def Let_def)

text \<open>
  C5. \<open>validateInput\<close> answers with the first constraint, in the order of the
  specification, that the trimmed value of the field fails, and with that
  constraint alone: it shows the message of that constraint once and gives up. A
  submission that it rejects sends no request and does not enter the processing
  state.
\<close>

theorem validation_first_failure_wins:
  "validateInput p =
     (case first_failure (trim (field_value (companyInput p))) of
        None \<Rightarrow> (True, p)
      | Some m \<Rightarrow> reject m p)
   \<and> (\<not> isProcessing s \<and> first_failure (trim (field_value (companyInput (page s)))) = Some m \<longrightarrow>
        fst (submit_begin eng s) = None
        \<and> pending (snd (submit_begin eng s)) = pending s
        \<and> \<not> isProcessing (snd (submit_begin eng s))
        \<and> map_option content (errorMessage (page (snd (submit_begin eng s))))
            = map_option (\<lambda>el. Text m) (errorMessage (page s))
        \<and> clear_timers (page (snd (submit_begin eng s)))
            = clear_timers (page s) + (if errorMessage (page s) = None then 0 else 1))"
proof -
  have "fst (submit_begin eng s) = None
        \<and> pending (snd (submit_begin eng s)) = pending s
        \<and> \<not> isProcessing (snd (submit_begin eng s))
        \<and> map_option content (errorMessage (page (snd (submit_begin eng s))))
            = map_option (\<lambda>el. Text m) (errorMessage (page s))
        \<and> clear_timers (page (snd (submit_begin eng s)))
            = clear_timers (page s) + (if errorMessage (page s) = None then 0 else 1)"
    if a: "\<not> isProcessing s" "first_failure (trim (field_value (companyInput (page s)))) = Some m"
  proof -
    have e: "errorMessage (clearError (page s)) = None \<longleftrightarrow> errorMessage (page s) = None"
      by (simp add: clearError_def split: option.splits)
    have m: "map_option (\<lambda>el. Text m) (errorMessage (clearError (page s)))
           = map_option (\<lambda>el. Text m) (errorMessage (page s))"
      by (simp add: clearError_def split: option.splits)
    show ?thesis
      using a by (simp add: begin_rejected [OF a] reject_banner e m)
  qed
  then show ?thesis by (simp add: validate_first_failure)
qed

theorem validation_first_failure_wins_witness:
  "\<not> isProcessing (idle\<lparr>page := sample_page\<lparr>companyInput := \<lparr>field_value = js '' <a  '', field_classes = {}, focused = False\<rparr>\<rparr>\<rparr>)
   \<and> first_failure (trim (js '' <a  '')) = Some msg_too_short
   \<and> pending (snd (submit_begin sample_engine
        (idle\<lparr>page := sample_page\<lparr>companyInput := \<lparr>field_value = js '' <a  '', field_classes = {}, focused = False\<rparr>\<rparr>\<rparr>))) = []
   \<and> map_option content (errorMessage (page (snd (submit_begin sample_engine
        (idle\<lparr>page := sample_page\<lparr>companyInput := \<lparr>field_value = js '' <a  '', field_classes = {}, focused = False\<rparr>\<rparr>\<rparr>)))))
       = Some (Text msg_too_short)"
proof -
  have f: "first_failure (trim (js '' <a  '')) = Some msg_too_short"
    by (simp add: first_failure_def constraints_def trim_def is_space_def js_def)
  show ?thesis
    using f validation_first_failure_wins [of sample_page
        "idle\<lparr>page := sample_page\<lparr>companyInput := \<lparr>field_value = js '' <a  '', field_classes = {}, focused = False\<rparr>\<rparr>\<rparr>"
        msg_too_short sample_engine]
    by (simp add: idle_def sample_page_def)
qed


subsection \<open>A success\<close>






lemma populated_frame [simp]:
  "resultsSection (populated eng r p) = resultsSection p"
  "scrolls (populated eng r p) = scrolls p"
  "statusList (populated eng r p) = statusList p"
  "searchBtn (populated eng r p) = searchBtn p"
  "btnText (populated eng r p) = btnText p"
  by (simp_all add: populated_def)

lemma regions_reveal [simp]:
  "regions (showResultsSection p) = regions p"
  "regions (snd (setButtonLoading eng b p)) = regions p"
  by (simp_all add: regions_def)

lemma updateStatus_content:
  "map_option content (statusList (updateStatusSection m b p))
     = map_option (\<lambda>el. Html (status_item (if b then js ''completed'' else js ''failed'')
                                 (if b then [9989] else [10060]) m)) (statusList p)"
  by (simp add: updateStatusSection_def Let_def split: option.splits)







lemma catch_block_shows:
  "map_option content (errorMessage (catch_block err p))
     = map_option (\<lambda>el. Text (error_text err)) (errorMessage p)"
  "map_option content (statusList (catch_block err p))
     = map_option (\<lambda>el. Html (status_item (js ''failed'') [10060] msg_failed)) (statusList p)"
  by (simp_all add: catch_block_def showError_banner updateStatus_content)




subsection \<open>Fields that are absent\<close>

















subsection \<open>Telling the failures apart\<close>

lemma error_text_fetch:
  "includes_str t (js ''Failed to fetch'') \<Longrightarrow> error_text (new_Error (Str t)) = msg_connection"
  by (simp add: error_text_def new_Error_def js_def)

text \<open>
  C1. The \<open>catch\<close> block takes any message that contains \<open>Failed to fetch\<close> for
  a failure of the network, also the message of the \<open>Error\<close> that line 49 builds
  from the error text of the server. A response with status 500 and the error text
  \<open>Failed to fetch PDF from register\<close> therefore shows the connectivity message and
  not the text of the server.
\<close>

theorem server_text_shown_as_connection_error:
  "\<not> ok 500
   \<and> getprop fetch_complaint (js ''error'') = Str (js ''Failed to fetch PDF from register'')
   \<and> map_option content (errorMessage (page (snd (submit_resume sample_engine
         (Responded 500 (Inr fetch_complaint)) busy))))
       = Some (Text msg_connection)
   \<and> msg_connection \<noteq> js ''Failed to fetch PDF from register''"
proof -
  have g: "getprop fetch_complaint (js ''error'') = Str (js ''Failed to fetch PDF from register'')"
    by (simp add: fetch_complaint_def)
  have t: "try_after_fetch sample_engine (Responded 500 (Inr fetch_complaint)) busy
             = (Some (new_Error (Str (js ''Failed to fetch PDF from register''))), busy)"
    by (simp add: try_after_fetch_def ok_def g or_else_def js_def fetch_complaint_def)
  have i: "includes_str (js ''Failed to fetch PDF from register'') (js ''Failed to fetch'')"
    by (simp add: js_def)
  have b: "errorMessage (page busy) = Some blank" by (simp add: busy_def sample_page_def)
  have d: "msg_connection \<noteq> js ''Failed to fetch PDF from register''"
    by (simp add: msg_connection_def js_def)
  show ?thesis
    using d by (simp add: ok_def g resume_page t catch_block_shows error_text_fetch [OF i] b)
qed

subsection \<open>The markup of the summary\<close>

lemma replace_nn_plain: "10 \<notin> set s \<Longrightarrow> replace_nn s = s"
  by (induction s rule: replace_nn.induct) auto

lemma replace_n_plain: "10 \<notin> set s \<Longrightarrow> replace_n s = s"
  unfolding replace_n_def by (induction s) auto

lemma summary_markup_plain: "10 \<notin> set s \<Longrightarrow> summary_markup s = js ''<p>'' @ s @ js ''</p>''"
  by (simp add: summary_markup_def replace_nn_plain replace_n_plain)

text \<open>The summary of the specification's scenario becomes two paragraphs.\<close>

lemma summary_markup_scenario:
  "summary_markup (js ''Line1'' @ [10, 10] @ js ''Line2'') = js ''<p>Line1</p><p>Line2</p>''"
  by (simp add: summary_markup_def replace_n_def js_def)

text \<open>
  C2. A summary without a newline reaches \<open>innerHTML\<close> as it came from the server,
  between \<open><p>\<close> and \<open></p>\<close>: for the summary \<open><img src=x onerror=alert(1)>\<close> the
  element receives the markup \<open><p><img src=x onerror=alert(1)></p>\<close>, with its angle
  brackets as they were.
\<close>

theorem summary_markup_inserted_unescaped:
  "getprop markup_summary (js ''summary'') = Str (js ''<img src=x onerror=alert(1)>'')
   \<and> populateSummary sample_engine markup_summary sample_page
       = (None, sample_page\<lparr>summaryContent :=
            Some (blank\<lparr>content := Html (js ''<p><img src=x onerror=alert(1)></p>'')\<rparr>)\<rparr>)"
proof -
  have g: "getprop markup_summary (js ''summary'') = Str (js ''<img src=x onerror=alert(1)>'')"
    "getprop markup_summary (js ''extracted_info'') = Undefined"
    by (simp_all add: markup_summary_def js_def)
  have n: "10 \<notin> set (js ''<img src=x onerror=alert(1)>'')" by (simp add: js_def)
  have m: "summary_markup (js ''<img src=x onerror=alert(1)>'') = js ''<p><img src=x onerror=alert(1)></p>''"
    using summary_markup_plain [OF n] by (simp add: js_def)
  have t: "js ''<img src=x onerror=alert(1)>'' \<noteq> []" by (simp add: js_def)
  have pg: "summaryContent sample_page = Some blank" by (simp add: sample_page_def)
  show ?thesis
    using t by (simp add: g populateSummary_def write_summary_def pg m)
qed


subsection \<open>A response that is not a success\<close>




end
